theory Spec2Isabelle
  imports Complex_Main "HOL-Library.AList"
begin

section \<open>Python values\<close>

text \<open>
  The three modules compute with Python integers (unbounded) and Python floats (the
  result of every true division \<open>/\<close>). Integers are \<open>int\<close>. A float is modelled by
  the exact rational it denotes: the rounding of binary64 is not part of this model.
  Its range is, where Python raises: an integer that enters float arithmetic, and the
  quotient of two integers, raise OverflowError when they round to \<open>2^1024\<close> or beyond,
  that is from \<open>2^1024 - 2^970\<close> on. Operations on two floats never raise (they yield
  \<open>inf\<close> or \<open>nan\<close>, for which the model keeps the exact value). A dictionary value
  that may be an integer or a float is a \<open>pynum\<close>.
\<close>

datatype pynum = PyInt int | PyFloat rat

datatype error = ValueError string | ZeroDivisionError | KeyError string | OverflowError

definition FLOAT_LIMIT :: rat where
  "FLOAT_LIMIT = 2 ^ 1024 - 2 ^ 970"

text \<open>An integer operand of a float operation: \<open>float(x)\<close>.\<close>

definition int_to_float :: "int \<Rightarrow> error + rat" where
  "int_to_float x =
     (if FLOAT_LIMIT \<le> \<bar>of_int x\<bar> then Inl OverflowError else Inr (of_int x))"

text \<open>True division \<open>x / y\<close> of two integers: a float, ZeroDivisionError or
  OverflowError.\<close>

definition int_truediv :: "int \<Rightarrow> int \<Rightarrow> error + rat" where
  "int_truediv x y =
     (if y = 0 then Inl ZeroDivisionError
      else if FLOAT_LIMIT \<le> \<bar>of_int x / of_int y\<bar> then Inl OverflowError
      else Inr (of_int x / of_int y))"

text \<open>The exception of the first operation that raises, in program order.\<close>

fun first_error :: "(error + 'a) list \<Rightarrow> error option" where
  "first_error [] = None"
| "first_error (Inl e # xs) = Some e"
| "first_error (Inr v # xs) = first_error xs"

text \<open>\<open>str(x)\<close> for an integer, as the f-string of \<open>_require_divisible\<close> and
  \<open>TileConfig.name\<close> render it.\<close>

fun str_nat :: "nat \<Rightarrow> string" where
  "str_nat n =
     (if n < 10 then [''0123456789'' ! n]
      else str_nat (n div 10) @ [''0123456789'' ! (n mod 10)])"

declare str_nat.simps [simp del]

definition str_int :: "int \<Rightarrow> string" where
  "str_int x = (if x < 0 then ''-'' @ str_nat (nat (- x)) else str_nat (nat x))"

section \<open>The FP8xFP8 GEMM tile model (src/gemm.py)\<close>

definition BLOCK_SIZE :: int where "BLOCK_SIZE = 32"
definition A_LDS_PAD :: int where "A_LDS_PAD = 16"
definition LDS_CAP_BYTES :: int where "LDS_CAP_BYTES = 320 * 1024"
definition LDS_BYTES_PER_CYCLE :: int where "LDS_BYTES_PER_CYCLE = 128"
definition F8_MFMA_THROUGHPUT :: rat where "F8_MFMA_THROUGHPUT = 16 * 16 * 128 / 8"

record TileConfig =
  m :: int
  n :: int
  k :: int

definition name :: "TileConfig \<Rightarrow> string" where
  "name cfg = str_int (m cfg) @ ''x'' @ str_int (n cfg) @ ''x'' @ str_int (k cfg)"

text \<open>\<open>x % d\<close> raises ZeroDivisionError for \<open>d = 0\<close>; for every other \<open>d\<close> it is the
  floored remainder, which is \<open>mod\<close> on \<open>int\<close>.\<close>

definition require_divisible :: "int \<Rightarrow> int \<Rightarrow> string \<Rightarrow> error + unit" where
  "require_divisible x d what =
     (if d = 0 then Inl ZeroDivisionError
      else if x mod d \<noteq> 0
        then Inl (ValueError (what @ '' must be divisible by '' @ str_int d @ '', got '' @ str_int x))
      else Inr ())"

text \<open>Float floor division \<open>x // d\<close> by a non-zero constant.\<close>

definition float_floordiv :: "rat \<Rightarrow> rat \<Rightarrow> rat" where
  "float_floordiv x d = of_int \<lfloor>x / d\<rfloor>"

type_synonym metrics = "(string \<times> pynum) list"

text \<open>
  The integers of the body enter float arithmetic on the source lines of
  \<open>compute_cycles\<close>, \<open>lds_b_inst\<close>, \<open>lds_scale_inst\<close>, \<open>lds_1x4_time\<close>, \<open>acc_reg\<close>,
  \<open>a_regs\<close> and \<open>b_regs\<close>, in this order, all before the division by \<open>total_lds\<close> in
  the returned dict: \<open>first_error\<close> runs over them before that division.
\<close>

definition fp8fp8_tile_metrics :: "int \<Rightarrow> int \<Rightarrow> int \<Rightarrow> error + metrics" where
  "fp8fp8_tile_metrics tile_m tile_n tile_k =
    (case require_divisible tile_k 32 ''tile_k'' of Inl e \<Rightarrow> Inl e | Inr _ \<Rightarrow>
    (case require_divisible tile_n 16 ''tile_n'' of Inl e \<Rightarrow> Inl e | Inr _ \<Rightarrow>
    (let a_lds = tile_m * (tile_k + A_LDS_PAD);
         b_lds = tile_k * tile_n;
         a_scale = (tile_m * tile_k) div BLOCK_SIZE;
         b_scale = (tile_n * tile_k) div BLOCK_SIZE;
         scale = a_scale + b_scale;
         total_lds = a_lds + b_lds + scale;
         compute_cycles = of_int (tile_m * tile_n * tile_k) / 4 / F8_MFMA_THROUGHPUT;
         tdm_a = tile_m;
         tdm_b = (tile_n * tile_k) div 256;
         tdm_issue_time = tdm_a + tdm_b;
         lds_a_inst = (tile_m * tile_k) div 512;
         lds_b_inst = float_floordiv (of_int tile_n / 4 * of_int tile_k) 512;
         lds_scale_inst =
           float_floordiv (of_int (tile_m * tile_k) / 32 + of_int (tile_n * tile_k) / 4 / 32) 128;
         lds_1x4 = a_lds + (b_lds div 4);
         lds_1x4_time = of_int lds_1x4 / of_int LDS_BYTES_PER_CYCLE;
         acc_reg = of_int (tile_m * tile_n) / 4 / 16 / 16 * 8;
         a_regs = of_int (tile_m * tile_k) / 16 / 128 * 16;
         b_regs = of_int tile_n / 4 * of_int tile_k / 16 / 128 * 16;
         reg_per_msb = acc_reg / 4 + max a_regs b_regs / 2
     in (case first_error
           [int_truediv (tile_m * tile_n * tile_k) 4,
            int_truediv tile_n 4, int_to_float tile_k,
            int_truediv (tile_m * tile_k) 32, int_truediv (tile_n * tile_k) 4,
            int_truediv lds_1x4 LDS_BYTES_PER_CYCLE,
            int_truediv (tile_m * tile_n) 4,
            int_truediv (tile_m * tile_k) 16,
            int_truediv tile_n 4, int_to_float tile_k] of
         Some e \<Rightarrow> Inl e
       | None \<Rightarrow>
        (case int_truediv LDS_CAP_BYTES total_lds of Inl e \<Rightarrow> Inl e | Inr max_lds_stage \<Rightarrow>
       Inr [(''tilem'', PyInt tile_m),
            (''tilen'', PyInt tile_n),
            (''tilek'', PyInt tile_k),
            (''compute cycles'', PyFloat compute_cycles),
            (''A lds'', PyInt a_lds),
            (''B lds'', PyInt b_lds),
            (''scale'', PyInt scale),
            (''Total lds'', PyInt total_lds),
            (''lds a inst'', PyInt lds_a_inst),
            (''lds b inst'', PyFloat lds_b_inst),
            (''lds scale inst'', PyFloat lds_scale_inst),
            (''max lds stage'', PyFloat max_lds_stage),
            (''wave lds latency time'', PyFloat lds_1x4_time),
            (''TDM A'', PyInt tdm_a),
            (''TDM B'', PyInt tdm_b),
            (''TDM issue time'', PyInt tdm_issue_time),
            (''acc reg'', PyFloat acc_reg),
            (''a regs'', PyFloat a_regs),
            (''b regs'', PyFloat b_regs),
            (''reg per msb'', PyFloat reg_per_msb)])))))"

text \<open>
  \<open>fp8fp8_table\<close>. A dict keeps insertion order and a repeated key keeps its first
  position with the last value: \<open>AList.update\<close>. The body of the \<open>try\<close> (import
  pandas, build the transposed DataFrame, set its columns) is library code: it is the
  parameter \<open>pd\<close>, which yields the frame, or \<open>None\<close> when any of the three statements
  raises an \<open>Exception\<close>, in which case the plain table is returned.
\<close>

type_synonym table = "(string \<times> (string \<times> pynum option) list) list"

definition row_order :: "string list" where
  "row_order =
    [''tilem'', ''tilen'', ''tilek'',
     ''compute cycles'',
     ''A lds'', ''B lds'', ''scale'', ''Total lds'',
     ''lds a inst'', ''lds b inst'', ''lds scale inst'',
     ''max lds stage'', ''wave lds latency time'',
     ''TDM A'', ''TDM B'', ''TDM issue time'',
     ''acc reg'', ''a regs'', ''b regs'', ''reg per msb'']"

fun build_cols :: "TileConfig list \<Rightarrow> (string \<times> metrics) list \<Rightarrow> error + (string \<times> metrics) list" where
  "build_cols [] cols = Inr cols"
| "build_cols (cfg # cfgs) cols =
     (case fp8fp8_tile_metrics (m cfg) (n cfg) (k cfg) of
        Inl e \<Rightarrow> Inl e
      | Inr ms \<Rightarrow> build_cols cfgs (AList.update (name cfg) ms cols))"

fun build_row ::
  "(string \<times> metrics) list \<Rightarrow> string \<Rightarrow> TileConfig list \<Rightarrow> (string \<times> pynum option) list
    \<Rightarrow> error + (string \<times> pynum option) list" where
  "build_row cols row [] acc = Inr acc"
| "build_row cols row (cfg # cfgs) acc =
     (case map_of cols (name cfg) of
        None \<Rightarrow> Inl (KeyError (name cfg))
      | Some ms \<Rightarrow> build_row cols row cfgs (AList.update (name cfg) (map_of ms row) acc))"

fun build_rows ::
  "(string \<times> metrics) list \<Rightarrow> TileConfig list \<Rightarrow> string list \<Rightarrow> table \<Rightarrow> error + table" where
  "build_rows cols configs [] acc = Inr acc"
| "build_rows cols configs (row # rows) acc =
     (case build_row cols row configs [] of
        Inl e \<Rightarrow> Inl e
      | Inr d \<Rightarrow> build_rows cols configs rows (AList.update row d acc))"

definition fp8fp8_table ::
  "(table \<Rightarrow> string list \<Rightarrow> 'df option) \<Rightarrow> TileConfig list \<Rightarrow> error + ('df + table)" where
  "fp8fp8_table pd configs =
     (case build_cols configs [] of Inl e \<Rightarrow> Inl e | Inr cols \<Rightarrow>
     (case build_rows cols configs row_order [] of Inl e \<Rightarrow> Inl e | Inr table \<Rightarrow>
     (case pd table (map name configs) of
        Some df \<Rightarrow> Inr (Inl df)
      | None \<Rightarrow> Inr (Inr table))))"

section \<open>The attention cycle model with fixed issue cycles (src/pa.py)\<close>

text \<open>
  Every quantity of the two attention modules is a float. \<open>gemm\<close> and \<open>softmax\<close> below
  give the value a call returns; \<open>gemm_call\<close> and \<open>softmax_call\<close> are the calls
  themselves, which raise when an integer of the body is too large for a float.
\<close>

definition MMA_THROUGHPUT :: rat where "MMA_THROUGHPUT = 16 * 16 * 32 * 2 / 16"
definition HEAD_SIZE :: int where "HEAD_SIZE = 128"
definition WARP_SIZE :: int where "WARP_SIZE = 64"
definition ISSUE_CYCLES :: int where "ISSUE_CYCLES = 4"
definition EXP_ISSUE_CYCLES :: int where "EXP_ISSUE_CYCLES = ISSUE_CYCLES * 4"

type_synonym breakdown = "(string \<times> rat) list"

definition gemm :: "int \<Rightarrow> int \<Rightarrow> rat" where
  "gemm qtile kv_tile =
     (let ops = qtile * kv_tile * HEAD_SIZE * 2 * 2;
          cycles = of_int ops / MMA_THROUGHPUT
      in cycles)"

definition softmax :: "int \<Rightarrow> int \<Rightarrow> bool \<Rightarrow> breakdown" where
  "softmax qtile kv_tile is_packed =
     (let s_elems = of_int (qtile * kv_tile) / of_int WARP_SIZE;
          intra_max = (s_elems / 2) * of_int ISSUE_CYCLES;
          inter_max = 250 + 84 + 112 + (of_int qtile / 16) * 4 / 2;
          fma = (if is_packed then s_elems / 2 else s_elems);
          exp = s_elems;
          softmax_fma_exp = fma * of_int ISSUE_CYCLES + exp * of_int EXP_ISSUE_CYCLES;
          softmax_sum = (if is_packed then s_elems / 2 else s_elems) * of_int ISSUE_CYCLES;
          quant_scale = (if is_packed then s_elems / 2 else s_elems);
          cvt = (if is_packed then s_elems / 2 else s_elems);
          s_quant = quant_scale * of_int ISSUE_CYCLES + cvt * of_int ISSUE_CYCLES * 2;
          reshape_s = s_elems / 4 * 8 + 100 + s_elems / 4 * 32;
          out_elems = (of_int (qtile * HEAD_SIZE) / 4) / of_int WARP_SIZE;
          recompute_output = (if is_packed then out_elems / 2 else out_elems) * of_int ISSUE_CYCLES
      in [(''intra_max'', intra_max),
          (''inter_max'', inter_max),
          (''softmax_fma_exp'', softmax_fma_exp),
          (''softmax_sum'', softmax_sum),
          (''s_quant'', s_quant),
          (''reshape_s'', reshape_s),
          (''recompute_output'', recompute_output)])"

text \<open>
  The calls. \<open>gemm\<close> converts \<open>ops\<close> to divide it by the float \<open>MMA_THROUGHPUT\<close>.
  \<open>softmax\<close> divides integers on the lines of \<open>s_elems\<close> (\<open>qtile * kv_tile\<close> by
  \<open>WARP_SIZE\<close>), \<open>inter_max\<close> (\<open>qtile\<close> by 16) and \<open>out_elems\<close> (\<open>qtile * HEAD_SIZE\<close>
  by 4); every other operation is on floats and small constants.
\<close>

definition gemm_call :: "int \<Rightarrow> int \<Rightarrow> error + rat" where
  "gemm_call qtile kv_tile =
     (case first_error [int_to_float (qtile * kv_tile * HEAD_SIZE * 2 * 2)] of
        Some e \<Rightarrow> Inl e
      | None \<Rightarrow> Inr (gemm qtile kv_tile))"

definition softmax_call :: "int \<Rightarrow> int \<Rightarrow> bool \<Rightarrow> error + breakdown" where
  "softmax_call qtile kv_tile is_packed =
     (case first_error
        [int_truediv (qtile * kv_tile) WARP_SIZE,
         int_truediv qtile 16,
         int_truediv (qtile * HEAD_SIZE) 4] of
        Some e \<Rightarrow> Inl e
      | None \<Rightarrow> Inr (softmax qtile kv_tile is_packed))"

text \<open>\<open>sum(d.values())\<close>: a left fold from 0 over the values in insertion order.\<close>

definition py_sum :: "rat list \<Rightarrow> rat" where
  "py_sum xs = foldl (+) 0 xs"

text \<open>
  \<open>print_performance_table\<close> returns nothing and prints. The model returns what it
  computes before printing: the flags as shown in the header (\<open>is_packed\<close> after the
  override), the breakdown, the totals, and the value of the row
  'Total Cycles for Coexecution' when that row is printed. The rendering of the rows
  (\<open>.2f\<close>, titles) is left out.
\<close>

record perf_table =
  shown_is_packed :: bool
  shown_co_exe :: bool
  gemm_cycles :: rat
  softmax_total :: rat
  softmax_metrics :: breakdown
  tot_cycles :: rat
  tot_cycles_coexe :: rat
  coexe_row :: "rat option"

definition print_performance_table :: "int \<Rightarrow> int \<Rightarrow> bool \<Rightarrow> bool \<Rightarrow> perf_table" where
  "print_performance_table qtile kv_tile co_exe is_packed0 =
     (let is_packed = (if co_exe then False else is_packed0);
          metrics = softmax qtile kv_tile is_packed;
          cycles = gemm qtile kv_tile;
          total = py_sum (map snd metrics);
          tot = cycles + total;
          tot_coexe = cycles + (total - cycles * 3 / 4) / 2
      in \<lparr> shown_is_packed = is_packed, shown_co_exe = co_exe,
           gemm_cycles = cycles, softmax_total = total, softmax_metrics = metrics,
           tot_cycles = tot, tot_cycles_coexe = tot_coexe,
           coexe_row = Some tot_coexe \<rparr>)"

section \<open>The attention cycle model with issue rates (src/400/pa.py)\<close>

definition MMA_THROUGHPUT_400 :: rat where "MMA_THROUGHPUT_400 = 16 * 16 * 128 * 2 / 8"
definition HEAD_SIZE_400 :: int where "HEAD_SIZE_400 = 128"
definition WARP_SIZE_400 :: int where "WARP_SIZE_400 = 32"
definition VOP_RATE :: int where "VOP_RATE = 1"
definition DEP_VOP_RATE :: int where "DEP_VOP_RATE = 5"
definition TRANS_RATE :: int where "TRANS_RATE = 2"
definition DEP_TRANS_RATE :: int where "DEP_TRANS_RATE = 8"

definition gemm_400 :: "int \<Rightarrow> int \<Rightarrow> rat" where
  "gemm_400 qtile kv_tile =
     (let ops = qtile * kv_tile * HEAD_SIZE_400 * 2 * 2;
          cycles = of_int ops / MMA_THROUGHPUT_400
      in cycles)"

definition softmax_400 :: "int \<Rightarrow> int \<Rightarrow> bool \<Rightarrow> breakdown" where
  "softmax_400 qtile kv_tile is_packed =
     (let s_elems = of_int (qtile * kv_tile) / of_int WARP_SIZE_400;
          dequant = (if is_packed then s_elems / 2 else s_elems) * of_int VOP_RATE;
          intra_max = (s_elems / 2) * of_int VOP_RATE;
          inter_max = (of_int (4 * qtile) / 16) * of_int VOP_RATE;
          fma = (if is_packed then s_elems / 2 else s_elems);
          exp = s_elems;
          softmax_fma_exp = fma * of_int VOP_RATE + exp * of_int TRANS_RATE;
          softmax_sum = (if is_packed then s_elems / 2 else s_elems) * of_int VOP_RATE;
          quant_scale = (if is_packed then s_elems / 2 else s_elems);
          cvt = (if is_packed then s_elems / 2 else s_elems);
          s_quant = quant_scale * of_int VOP_RATE + cvt * of_int VOP_RATE;
          out_elems = of_int (qtile * HEAD_SIZE_400) / of_int WARP_SIZE_400;
          recompute_output =
            (if is_packed then out_elems / 2 else out_elems) * 2 * of_int VOP_RATE
      in [(''dequant'', dequant),
          (''intra_max'', intra_max),
          (''inter_max'', inter_max),
          (''softmax_fma_exp'', softmax_fma_exp),
          (''softmax_sum'', softmax_sum),
          (''s_quant'', s_quant),
          (''recompute_output'', recompute_output)])"

text \<open>
  The calls. \<open>softmax\<close> divides integers on the lines of \<open>s_elems\<close>, \<open>inter_max\<close>
  (\<open>4 * qtile\<close> by 16) and, twice, \<open>out_elems\<close> (\<open>qtile * HEAD_SIZE\<close> by \<open>WARP_SIZE\<close>).
\<close>

definition gemm_400_call :: "int \<Rightarrow> int \<Rightarrow> error + rat" where
  "gemm_400_call qtile kv_tile =
     (case first_error [int_to_float (qtile * kv_tile * HEAD_SIZE_400 * 2 * 2)] of
        Some e \<Rightarrow> Inl e
      | None \<Rightarrow> Inr (gemm_400 qtile kv_tile))"

definition softmax_400_call :: "int \<Rightarrow> int \<Rightarrow> bool \<Rightarrow> error + breakdown" where
  "softmax_400_call qtile kv_tile is_packed =
     (case first_error
        [int_truediv (qtile * kv_tile) WARP_SIZE_400,
         int_truediv (4 * qtile) 16,
         int_truediv (qtile * HEAD_SIZE_400) WARP_SIZE_400,
         int_truediv (qtile * HEAD_SIZE_400) WARP_SIZE_400] of
        Some e \<Rightarrow> Inl e
      | None \<Rightarrow> Inr (softmax_400 qtile kv_tile is_packed))"

text \<open>As above; here the co-execution row is printed only when \<open>co_exe\<close> is set.\<close>

definition print_performance_table_400 :: "int \<Rightarrow> int \<Rightarrow> bool \<Rightarrow> bool \<Rightarrow> perf_table" where
  "print_performance_table_400 qtile kv_tile co_exe is_packed0 =
     (let is_packed = (if co_exe then False else is_packed0);
          metrics = softmax_400 qtile kv_tile is_packed;
          cycles = gemm_400 qtile kv_tile;
          total = py_sum (map snd metrics);
          tot = cycles + total;
          tot_coexe = cycles + (total - cycles * 3 / 4) / 2
      in \<lparr> shown_is_packed = is_packed, shown_co_exe = co_exe,
           gemm_cycles = cycles, softmax_total = total, softmax_metrics = metrics,
           tot_cycles = tot, tot_cycles_coexe = tot_coexe,
           coexe_row = (if co_exe then Some tot_coexe else None) \<rparr>)"

section \<open>Evaluation helpers\<close>

lemma str_nat_numeral:
  "str_nat (numeral w) =
     (if (numeral w :: nat) < 10 then [''0123456789'' ! numeral w]
      else str_nat (numeral w div 10) @ [''0123456789'' ! (numeral w mod 10)])"
  by (rule str_nat.simps)

lemma str_nat_0: "str_nat 0 = ''0''"
  by (simp add: str_nat.simps)

lemma str_nat_1: "str_nat 1 = ''1''" "str_nat (Suc 0) = ''1''"
  by (simp_all add: str_nat.simps)

lemmas str_eval = str_int_def str_nat_numeral str_nat_0 str_nat_1

lemmas pa_consts =
  MMA_THROUGHPUT_def HEAD_SIZE_def WARP_SIZE_def ISSUE_CYCLES_def EXP_ISSUE_CYCLES_def

lemmas pa400_consts =
  MMA_THROUGHPUT_400_def HEAD_SIZE_400_def WARP_SIZE_400_def VOP_RATE_def TRANS_RATE_def

lemma foldl_plus_shift: "foldl (+) a xs = a + foldl (+) (0::rat) xs"
proof (induction xs arbitrary: a)
  case Nil
  show ?case by simp
next
  case (Cons x xs)
  have "foldl (+) a (x # xs) = foldl (+) (a + x) xs" by simp
  also have "\<dots> = (a + x) + foldl (+) 0 xs" by (rule Cons.IH)
  also have "\<dots> = a + (x + foldl (+) 0 xs)" by (simp add: add.assoc)
  also have "x + foldl (+) 0 xs = foldl (+) x xs" by (rule Cons.IH [symmetric])
  also have "foldl (+) x xs = foldl (+) 0 (x # xs)" by simp
  finally show ?case .
qed

lemma py_sum_Nil: "py_sum [] = 0"
  by (simp add: py_sum_def)

lemma py_sum_Cons: "py_sum (x # xs) = x + py_sum xs"
  unfolding py_sum_def using foldl_plus_shift [of x xs] by simp

section \<open>Integers within the range of a float\<close>

lemma FLOAT_LIMIT_large: "2 ^ 64 < FLOAT_LIMIT"
  by (simp add: FLOAT_LIMIT_def)

lemma int_truediv_ok:
  assumes "y \<noteq> 0" and "\<bar>of_int x / of_int y\<bar> < FLOAT_LIMIT"
  shows "int_truediv x y = Inr (of_int x / of_int y)"
  using assms by (simp add: int_truediv_def)

lemma int_to_float_ok:
  assumes "\<bar>of_int x\<bar> < FLOAT_LIMIT"
  shows "int_to_float x = Inr (of_int x)"
  using assms by (simp add: int_to_float_def)

lemma int_truediv_le:
  assumes "1 \<le> d" and "\<bar>of_int x\<bar> < FLOAT_LIMIT"
  shows "int_truediv x d = Inr (of_int x / of_int d)"
proof -
  from assms(1) have d: "(1::rat) \<le> of_int d" by simp
  have "\<bar>of_int x / of_int d :: rat\<bar> = \<bar>of_int x\<bar> / of_int d"
    using d by simp
  also have "\<dots> \<le> \<bar>of_int x\<bar> / 1"
    using d by (intro divide_left_mono) simp_all
  finally have "\<bar>of_int x / of_int d :: rat\<bar> < FLOAT_LIMIT"
    using assms(2) by simp
  with assms(1) show ?thesis by (intro int_truediv_ok) simp_all
qed

lemma abs_quot: "\<bar>of_int x / of_int d :: rat\<bar> = \<bar>of_int x\<bar> / \<bar>of_int d\<bar>"
  by simp

section \<open>Closed forms of the attention model\<close>

lemma gemm_closed: "gemm q kv = of_int (q * kv) / 2"
  by (simp add: gemm_def MMA_THROUGHPUT_def HEAD_SIZE_def Let_def)

lemma gemm_400_closed: "gemm_400 q kv = of_int (q * kv) / 16"
  by (simp add: gemm_400_def MMA_THROUGHPUT_400_def HEAD_SIZE_400_def Let_def)

lemma softmax_closed:
  "softmax q kv p =
     [(''intra_max'', 2 * (of_int (q * kv) / 64)),
      (''inter_max'', 446 + of_int q / 8),
      (''softmax_fma_exp'', (if p then 18 else 20) * (of_int (q * kv) / 64)),
      (''softmax_sum'', (if p then 2 else 4) * (of_int (q * kv) / 64)),
      (''s_quant'', (if p then 6 else 12) * (of_int (q * kv) / 64)),
      (''reshape_s'', 100 + 10 * (of_int (q * kv) / 64)),
      (''recompute_output'', (if p then 1 else 2) * of_int q)]"
  by (simp add: softmax_def Let_def pa_consts del: of_int_mult)

lemma softmax_400_closed:
  "softmax_400 q kv p =
     [(''dequant'', (if p then 1 / 2 else 1) * (of_int (q * kv) / 32)),
      (''intra_max'', of_int (q * kv) / 64),
      (''inter_max'', of_int q / 4),
      (''softmax_fma_exp'', (if p then 5 / 2 else 3) * (of_int (q * kv) / 32)),
      (''softmax_sum'', (if p then 1 / 2 else 1) * (of_int (q * kv) / 32)),
      (''s_quant'', (if p then 1 else 2) * (of_int (q * kv) / 32)),
      (''recompute_output'', (if p then 4 else 8) * of_int q)]"
  by (simp add: softmax_400_def Let_def pa400_consts del: of_int_mult)

text \<open>The co-execution total is not clamped: with \<open>qtile = kv_tile = 1\<close> it is 274.75,
  below the 446.125 cycles of the single stage \<open>inter_max\<close>.\<close>

lemma coexe_total_below_stage:
  "tot_cycles_coexe (print_performance_table 1 1 True False) = 1099 / 4 \<and>
   map_of (softmax_metrics (print_performance_table 1 1 True False)) ''inter_max'' = Some (3569 / 8)"
  by (simp add: print_performance_table_def Let_def softmax_closed gemm_closed py_sum_Cons py_sum_Nil)

text \<open>Without co-execution the packed flag does change the breakdown.\<close>

lemma packed_changes_breakdown:
  "softmax_metrics (print_performance_table 16 128 False True) \<noteq>
   softmax_metrics (print_performance_table 16 128 False False)"
  by (simp add: print_performance_table_def softmax_closed Let_def)

lemma nonpos_product:
  assumes "q \<le> 0" and "0 \<le> kv"
  shows "(of_int (q * kv) :: rat) \<le> 0" "(of_int q :: rat) \<le> 0"
proof -
  from assms have "q * kv \<le> 0" by (rule mult_nonpos_nonneg)
  then show "(of_int (q * kv) :: rat) \<le> 0" by (simp only: of_int_le_0_iff)
  from assms(1) show "(of_int q :: rat) \<le> 0" by simp
qed

lemma softmax_400_nonpos:
  assumes "q \<le> 0" and "0 \<le> kv"
  shows "\<forall>v \<in> snd ` set (softmax_400 q kv p). v \<le> 0"
  using nonpos_product [OF assms]
  by (simp add: softmax_400_closed mult_nonneg_nonpos divide_nonpos_pos del: of_int_mult)

lemma softmax_nonpos:
  assumes "q \<le> 0" and "0 \<le> kv"
  shows "\<forall>(key, v) \<in> set (softmax q kv p).
           key \<noteq> ''inter_max'' \<and> key \<noteq> ''reshape_s'' \<longrightarrow> v \<le> 0"
  using nonpos_product [OF assms]
  by (simp add: softmax_closed mult_nonneg_nonpos divide_nonpos_pos del: of_int_mult)

lemma gemm_sign:
  "(gemm q kv \<le> 0) = (q * kv \<le> 0)" "(gemm_400 q kv \<le> 0) = (q * kv \<le> 0)"
  by (simp_all add: gemm_closed gemm_400_closed divide_le_0_iff del: of_int_mult)

text \<open>For a negative \<open>kv_tile\<close> the GEMM cost decreases as \<open>qtile\<close> grows.\<close>

lemma gemm_negative_kv: "gemm 2 (-1) < gemm 1 (-1) \<and> gemm_400 2 (-1) < gemm_400 1 (-1)"
  by (simp add: gemm_closed gemm_400_closed)

section \<open>When the attention calls return\<close>

lemma ops_512: "q * kv * 128 * 2 * 2 = q * kv * (512::int)"
  by simp

lemma gemm_call_eq:
  "gemm_call q kv =
     (if FLOAT_LIMIT \<le> \<bar>of_int (q * kv * 512)\<bar> then Inl OverflowError else Inr (gemm q kv))"
  unfolding gemm_call_def HEAD_SIZE_def ops_512 int_to_float_def by simp

lemma gemm_400_call_eq:
  "gemm_400_call q kv =
     (if FLOAT_LIMIT \<le> \<bar>of_int (q * kv * 512)\<bar> then Inl OverflowError else Inr (gemm_400 q kv))"
  unfolding gemm_400_call_def HEAD_SIZE_400_def ops_512 int_to_float_def by simp

lemma softmax_call_in_range:
  assumes a: "\<bar>of_int (q * kv * 512)\<bar> < FLOAT_LIMIT" and b: "\<bar>of_int (q * 32)\<bar> < FLOAT_LIMIT"
  shows "softmax_call q kv p = Inr (softmax q kv p)"
    and "softmax_400_call q kv p = Inr (softmax_400 q kv p)"
proof -
  define X :: rat where "X = \<bar>of_int (q * kv)\<bar>"
  define Y :: rat where "Y = \<bar>of_int q\<bar>"
  have nn: "0 \<le> X" "0 \<le> Y" by (simp_all add: X_def Y_def)
  from a have a': "512 * X < FLOAT_LIMIT" by (simp add: X_def abs_mult)
  from b have b': "32 * Y < FLOAT_LIMIT" by (simp add: Y_def abs_mult)
  have s1: "\<bar>of_int (q * kv) / of_int 64 :: rat\<bar> < FLOAT_LIMIT"
    unfolding abs_quot X_def [symmetric] using a' nn by simp
  have s2: "\<bar>of_int q / of_int 16 :: rat\<bar> < FLOAT_LIMIT"
    unfolding abs_quot Y_def [symmetric] using b' nn by simp
  have s3: "\<bar>of_int (q * 128) / of_int 4 :: rat\<bar> < FLOAT_LIMIT"
    using b' nn by (simp add: abs_mult Y_def)
  have s4: "\<bar>of_int (q * kv) / of_int 32 :: rat\<bar> < FLOAT_LIMIT"
    unfolding abs_quot X_def [symmetric] using a' nn by simp
  have s5: "\<bar>of_int (4 * q) / of_int 16 :: rat\<bar> < FLOAT_LIMIT"
    using b' nn by (simp add: abs_mult Y_def)
  have s6: "\<bar>of_int (q * 128) / of_int 32 :: rat\<bar> < FLOAT_LIMIT"
    using b' nn by (simp add: abs_mult Y_def)
  have e: "int_truediv (q * kv) 64 = Inr (of_int (q * kv) / of_int 64)"
    "int_truediv q 16 = Inr (of_int q / of_int 16)"
    "int_truediv (q * 128) 4 = Inr (of_int (q * 128) / of_int 4)"
    "int_truediv (q * kv) 32 = Inr (of_int (q * kv) / of_int 32)"
    "int_truediv (4 * q) 16 = Inr (of_int (4 * q) / of_int 16)"
    "int_truediv (q * 128) 32 = Inr (of_int (q * 128) / of_int 32)"
    using s1 s2 s3 s4 s5 s6 by (simp_all add: int_truediv_ok)
  show "softmax_call q kv p = Inr (softmax q kv p)"
    unfolding softmax_call_def HEAD_SIZE_def WARP_SIZE_def
    by (simp only: e first_error.simps option.case)
  show "softmax_400_call q kv p = Inr (softmax_400 q kv p)"
    unfolding softmax_400_call_def HEAD_SIZE_400_def WARP_SIZE_400_def
    by (simp only: e first_error.simps option.case)
qed

text \<open>Beyond that range the calls raise, for tiles of either sign.\<close>

lemma attention_overflow:
  "gemm_call (- (2 ^ 1100)) 1 = Inl OverflowError \<and>
   gemm_400_call (- (2 ^ 1100)) 1 = Inl OverflowError \<and>
   softmax_call (2 ^ 1100) 1 False = Inl OverflowError \<and>
   softmax_400_call (2 ^ 1100) 1 False = Inl OverflowError"
  by (simp add: gemm_call_eq gemm_400_call_eq softmax_call_def softmax_400_call_def
      int_truediv_def FLOAT_LIMIT_def WARP_SIZE_def WARP_SIZE_400_def)

section \<open>What the GEMM tile model returns\<close>

lemma require_divisible_32:
  "require_divisible x 32 what =
     (if x mod 32 \<noteq> 0
      then Inl (ValueError (what @ '' must be divisible by 32, got '' @ str_int x))
      else Inr ())"
  by (simp add: require_divisible_def str_eval)

lemma require_divisible_16:
  "require_divisible x 16 what =
     (if x mod 16 \<noteq> 0
      then Inl (ValueError (what @ '' must be divisible by 16, got '' @ str_int x))
      else Inr ())"
  by (simp add: require_divisible_def str_eval)

lemma metrics_after_checks:
  assumes "tile_k mod 32 = 0" and "tile_n mod 16 = 0"
  shows "require_divisible tile_k 32 ''tile_k'' = Inr ()"
    and "require_divisible tile_n 16 ''tile_n'' = Inr ()"
  using assms by (simp_all add: require_divisible_32 require_divisible_16)

lemma metrics_returned_valid:
  assumes "fp8fp8_tile_metrics tile_m tile_n tile_k = Inr ms"
  shows "tile_k mod 32 = 0 \<and> tile_n mod 16 = 0"
  using assms unfolding fp8fp8_tile_metrics_def
  by (simp add: require_divisible_32 require_divisible_16 split: if_splits)

text \<open>What the returned metrics hold, whenever metrics are returned.\<close>

lemma metrics_returned_entries:
  assumes r: "fp8fp8_tile_metrics tile_m tile_n tile_k = Inr ms"
  shows "tile_m * (tile_k + A_LDS_PAD) + tile_k * tile_n +
         ((tile_m * tile_k) div BLOCK_SIZE + (tile_n * tile_k) div BLOCK_SIZE) \<noteq> 0 \<and>
     map_of ms ''A lds'' = Some (PyInt (tile_m * (tile_k + A_LDS_PAD))) \<and>
     map_of ms ''B lds'' = Some (PyInt (tile_k * tile_n)) \<and>
     map_of ms ''scale'' =
       Some (PyInt ((tile_m * tile_k) div BLOCK_SIZE + (tile_n * tile_k) div BLOCK_SIZE)) \<and>
     map_of ms ''Total lds'' =
       Some (PyInt (tile_m * (tile_k + A_LDS_PAD) + tile_k * tile_n +
         ((tile_m * tile_k) div BLOCK_SIZE + (tile_n * tile_k) div BLOCK_SIZE))) \<and>
     map_of ms ''max lds stage'' =
       Some (PyFloat (of_int LDS_CAP_BYTES /
         of_int (tile_m * (tile_k + A_LDS_PAD) + tile_k * tile_n +
           ((tile_m * tile_k) div BLOCK_SIZE + (tile_n * tile_k) div BLOCK_SIZE))))"
proof -
  from metrics_returned_valid [OF r]
  have v: "tile_k mod 32 = 0" "tile_n mod 16 = 0" by simp_all
  note c = metrics_after_checks [OF v]
  let ?t = "tile_m * (tile_k + A_LDS_PAD) + tile_k * tile_n +
         ((tile_m * tile_k) div BLOCK_SIZE + (tile_n * tile_k) div BLOCK_SIZE)"
  from r have nz: "?t \<noteq> 0"
    unfolding fp8fp8_tile_metrics_def Let_def int_truediv_def [of LDS_CAP_BYTES]
    by (simp only: c sum.case split: option.splits if_splits) simp_all
  from r nz have q: "int_truediv LDS_CAP_BYTES ?t = Inr (of_int LDS_CAP_BYTES / of_int ?t)"
    unfolding fp8fp8_tile_metrics_def Let_def int_truediv_def [of LDS_CAP_BYTES]
    by (simp only: c sum.case split: option.splits if_splits) simp_all
  from r q show ?thesis
    unfolding fp8fp8_tile_metrics_def Let_def
    apply (simp only: c sum.case split: option.splits)
    apply (simp_all only: sum.inject sum.distinct simp_thms)
    apply (erule conjE | erule subst)+
    apply (simp only: nz map_of.simps fst_conv snd_conv fun_upd_apply list.inject char.inject
      simp_thms if_True if_False)
    done
qed

lemma cap_truediv:
  assumes "t \<noteq> 0"
  shows "int_truediv LDS_CAP_BYTES t = Inr (of_int LDS_CAP_BYTES / of_int t)"
proof -
  from assms have "1 \<le> \<bar>t\<bar>" by simp
  then have t: "(1::rat) \<le> \<bar>of_int t\<bar>" by (metis of_int_1_le_iff of_int_abs)
  have "\<bar>of_int LDS_CAP_BYTES / of_int t :: rat\<bar> = 327680 / \<bar>of_int t\<bar>"
    by (simp add: LDS_CAP_BYTES_def)
  also have "\<dots> \<le> 327680 / 1"
    using t by (intro divide_left_mono) simp_all
  also have "\<dots> < FLOAT_LIMIT" using FLOAT_LIMIT_large by simp
  finally show ?thesis using assms by (intro int_truediv_ok) simp_all
qed

text \<open>
  With the two checks passed and the integers of the body within the range of a float,
  the call returns, unless the total footprint is zero: then \<open>LDS_CAP_BYTES / total_lds\<close>
  raises.
\<close>

lemma metrics_in_range:
  assumes v: "tile_k mod 32 = 0" "tile_n mod 16 = 0"
    and r: "\<bar>of_int (tile_m * tile_n * tile_k)\<bar> < FLOAT_LIMIT"
      "\<bar>of_int tile_n\<bar> < FLOAT_LIMIT" "\<bar>of_int tile_k\<bar> < FLOAT_LIMIT"
      "\<bar>of_int (tile_m * tile_k)\<bar> < FLOAT_LIMIT" "\<bar>of_int (tile_n * tile_k)\<bar> < FLOAT_LIMIT"
      "\<bar>of_int (tile_m * (tile_k + A_LDS_PAD) + tile_k * tile_n div 4) / 128\<bar> < FLOAT_LIMIT"
      "\<bar>of_int (tile_m * tile_n)\<bar> < FLOAT_LIMIT"
  shows "fp8fp8_tile_metrics tile_m tile_n tile_k = Inl ZeroDivisionError \<and>
           tile_m * (tile_k + A_LDS_PAD) + tile_k * tile_n +
             ((tile_m * tile_k) div BLOCK_SIZE + (tile_n * tile_k) div BLOCK_SIZE) = 0 \<or>
         (\<exists>ms. fp8fp8_tile_metrics tile_m tile_n tile_k = Inr ms)"
proof -
  note c = metrics_after_checks [OF v]
  have e: "int_truediv (tile_m * tile_n * tile_k) 4 = Inr (of_int (tile_m * tile_n * tile_k) / of_int 4)"
    "int_truediv tile_n 4 = Inr (of_int tile_n / of_int 4)"
    "int_to_float tile_k = Inr (of_int tile_k)"
    "int_truediv (tile_m * tile_k) 32 = Inr (of_int (tile_m * tile_k) / of_int 32)"
    "int_truediv (tile_n * tile_k) 4 = Inr (of_int (tile_n * tile_k) / of_int 4)"
    "int_truediv (tile_m * (tile_k + A_LDS_PAD) + tile_k * tile_n div 4) LDS_BYTES_PER_CYCLE =
       Inr (of_int (tile_m * (tile_k + A_LDS_PAD) + tile_k * tile_n div 4) / of_int LDS_BYTES_PER_CYCLE)"
    "int_truediv (tile_m * tile_n) 4 = Inr (of_int (tile_m * tile_n) / of_int 4)"
    "int_truediv (tile_m * tile_k) 16 = Inr (of_int (tile_m * tile_k) / of_int 16)"
    using r by (simp_all add: int_truediv_le int_truediv_ok int_to_float_ok LDS_BYTES_PER_CYCLE_def)
  let ?t = "tile_m * (tile_k + A_LDS_PAD) + tile_k * tile_n +
             ((tile_m * tile_k) div BLOCK_SIZE + (tile_n * tile_k) div BLOCK_SIZE)"
  show ?thesis
  proof (cases "?t = 0")
    case True
    have "fp8fp8_tile_metrics tile_m tile_n tile_k = Inl ZeroDivisionError"
      unfolding fp8fp8_tile_metrics_def Let_def int_truediv_def [of LDS_CAP_BYTES]
      by (simp only: c e True sum.case first_error.simps option.case if_True simp_thms)
    with True show ?thesis by blast
  next
    case False
    have "\<exists>ms. fp8fp8_tile_metrics tile_m tile_n tile_k = Inr ms"
      unfolding fp8fp8_tile_metrics_def Let_def
      by (simp only: c e cap_truediv [OF False] sum.case first_error.simps option.case) blast
    then show ?thesis by blast
  qed
qed

lemma metrics_zero_footprint: "fp8fp8_tile_metrics 0 256 0 = Inl ZeroDivisionError"
proof -
  have "fp8fp8_tile_metrics 0 256 0 = Inl ZeroDivisionError \<and>
           0 * (0 + A_LDS_PAD) + 0 * 256 + ((0 * 0) div BLOCK_SIZE + (256 * 0) div BLOCK_SIZE) = (0::int) \<or>
         (\<exists>ms. fp8fp8_tile_metrics 0 256 0 = Inr ms)"
    by (rule metrics_in_range) (simp_all add: FLOAT_LIMIT_def A_LDS_PAD_def)
  moreover have "\<not> (\<exists>ms. fp8fp8_tile_metrics 0 256 0 = Inr ms)"
    using metrics_returned_entries [of 0 256 0] by (auto simp: A_LDS_PAD_def BLOCK_SIZE_def)
  ultimately show ?thesis by blast
qed

text \<open>An integer too large for a float makes \<open>compute_cycles\<close> raise.\<close>

lemma metrics_overflow: "fp8fp8_tile_metrics (2 ^ 1024) 16 32 = Inl OverflowError"
  unfolding fp8fp8_tile_metrics_def Let_def
  by (simp add: require_divisible_32 require_divisible_16 int_truediv_def FLOAT_LIMIT_def)

lemma le_mult_pos:
  fixes a b :: int
  assumes "0 \<le> a" and "1 \<le> b"
  shows "a \<le> a * b"
  using mult_left_mono [OF assms(2) assms(1)] by simp

lemma positive_total:
  assumes "0 < tile_m" and "0 < tile_n" and "0 < tile_k"
  shows "tile_m * (tile_k + A_LDS_PAD) + tile_k * tile_n +
         ((tile_m * tile_k) div BLOCK_SIZE + (tile_n * tile_k) div BLOCK_SIZE) \<noteq> 0"
proof -
  from assms have "0 < tile_m * (tile_k + A_LDS_PAD)" by (simp add: A_LDS_PAD_def)
  moreover from assms have "0 < tile_k * tile_n" by simp
  moreover from assms have "0 \<le> (tile_m * tile_k) div BLOCK_SIZE"
    by (simp add: BLOCK_SIZE_def pos_imp_zdiv_nonneg_iff)
  moreover from assms have "0 \<le> (tile_n * tile_k) div BLOCK_SIZE"
    by (simp add: BLOCK_SIZE_def pos_imp_zdiv_nonneg_iff)
  ultimately show ?thesis by linarith
qed

lemma in_range_le:
  assumes "0 \<le> x" and "x \<le> P" and "of_int P < FLOAT_LIMIT"
  shows "\<bar>of_int x\<bar> < FLOAT_LIMIT"
proof -
  from assms(1) have "\<bar>of_int x :: rat\<bar> = of_int x" by simp
  also from assms(2) have "(of_int x :: rat) \<le> of_int P" by simp
  finally show ?thesis using assms(3) by simp
qed

lemma positive_in_range:
  assumes p: "0 < tile_m" "0 < tile_n" "0 < tile_k"
    and b: "of_int (tile_m * tile_n * tile_k) < FLOAT_LIMIT"
  shows "\<bar>of_int (tile_m * tile_n * tile_k)\<bar> < FLOAT_LIMIT"
    and "\<bar>of_int tile_n\<bar> < FLOAT_LIMIT" and "\<bar>of_int tile_k\<bar> < FLOAT_LIMIT"
    and "\<bar>of_int (tile_m * tile_k)\<bar> < FLOAT_LIMIT"
    and "\<bar>of_int (tile_n * tile_k)\<bar> < FLOAT_LIMIT"
    and "\<bar>of_int (tile_m * (tile_k + A_LDS_PAD) + tile_k * tile_n div 4) / 128\<bar> < FLOAT_LIMIT"
    and "\<bar>of_int (tile_m * tile_n)\<bar> < FLOAT_LIMIT"
proof -
  let ?P = "tile_m * tile_n * tile_k"
  from p have pos: "0 \<le> tile_m * tile_n" "0 \<le> tile_m * tile_k" "0 \<le> tile_n * tile_k"
    "0 \<le> tile_k * tile_n" "0 \<le> ?P"
    by simp_all
  have mn: "tile_m * tile_n \<le> ?P"
    using le_mult_pos [of "tile_m * tile_n" tile_k] p pos by simp
  have "tile_m * tile_k \<le> tile_m * tile_k * tile_n"
    using le_mult_pos [of "tile_m * tile_k" tile_n] p pos by simp
  then have mk: "tile_m * tile_k \<le> ?P" by (simp add: ac_simps)
  have "tile_n * tile_k \<le> tile_n * tile_k * tile_m"
    using le_mult_pos [of "tile_n * tile_k" tile_m] p pos by simp
  then have nk: "tile_n * tile_k \<le> ?P" by (simp add: ac_simps)
  have "tile_n \<le> tile_n * tile_k" using le_mult_pos [of tile_n tile_k] p by simp
  with nk have n: "tile_n \<le> ?P" by simp
  have "tile_k \<le> tile_k * tile_n" using le_mult_pos [of tile_k tile_n] p by simp
  with nk have k: "tile_k \<le> ?P" by (simp add: ac_simps)
  have "tile_m \<le> tile_m * tile_n" using le_mult_pos [of tile_m tile_n] p by simp
  with mn have m: "tile_m \<le> ?P" by simp
  show "\<bar>of_int ?P\<bar> < FLOAT_LIMIT" using pos b by (intro in_range_le [of _ ?P]) simp_all
  show "\<bar>of_int tile_n\<bar> < FLOAT_LIMIT" using p n b by (intro in_range_le [of _ ?P]) simp_all
  show "\<bar>of_int tile_k\<bar> < FLOAT_LIMIT" using p k b by (intro in_range_le [of _ ?P]) simp_all
  show "\<bar>of_int (tile_m * tile_k)\<bar> < FLOAT_LIMIT"
    using pos mk b by (intro in_range_le [of _ ?P]) simp_all
  show "\<bar>of_int (tile_n * tile_k)\<bar> < FLOAT_LIMIT"
    using pos nk b by (intro in_range_le [of _ ?P]) simp_all
  show "\<bar>of_int (tile_m * tile_n)\<bar> < FLOAT_LIMIT"
    using pos mn b by (intro in_range_le [of _ ?P]) simp_all
  let ?l = "tile_m * (tile_k + A_LDS_PAD) + tile_k * tile_n div 4"
  have a: "tile_m * (tile_k + A_LDS_PAD) = tile_m * tile_k + 16 * tile_m"
    by (simp add: A_LDS_PAD_def algebra_simps)
  have d: "0 \<le> tile_k * tile_n div 4" "tile_k * tile_n div 4 \<le> tile_k * tile_n"
    using pos(4) by arith+
  from nk have kn: "tile_k * tile_n \<le> ?P" by (simp add: ac_simps)
  from a d kn mk m p pos have l: "0 \<le> ?l" "?l \<le> 128 * ?P" by linarith+
  from l(1) have "(0::rat) \<le> of_int ?l" by (simp only: of_int_0_le_iff)
  then have "(0::rat) \<le> of_int ?l / 128" by (rule divide_nonneg_nonneg) simp
  then have "\<bar>of_int ?l / 128 :: rat\<bar> = of_int ?l / 128" by (rule abs_of_nonneg)
  also from l(2) have "(of_int ?l :: rat) \<le> of_int (128 * ?P)" by (simp only: of_int_le_iff)
  then have "(of_int ?l :: rat) / 128 \<le> of_int (128 * ?P) / 128"
    by (rule divide_right_mono) simp
  also have "(of_int (128 * ?P) :: rat) / 128 = of_int ?P" by simp
  finally show "\<bar>of_int ?l / 128\<bar> < FLOAT_LIMIT" using b by simp
qed

lemma within_tolerance: "\<bar>x - x\<bar> \<le> 1 / 10 ^ 9 * \<bar>x :: rat\<bar>"
  by simp

lemma lds_package:
  fixes a b s :: int and ms :: metrics
  assumes nz: "a + b + s \<noteq> 0"
    and e: "map_of ms ''A lds'' = Some (PyInt a) \<and>
        map_of ms ''B lds'' = Some (PyInt b) \<and>
        map_of ms ''scale'' = Some (PyInt s) \<and>
        map_of ms ''Total lds'' = Some (PyInt (a + b + s)) \<and>
        map_of ms ''max lds stage'' =
          Some (PyFloat (of_int LDS_CAP_BYTES / of_int (a + b + s)))"
  shows "\<exists>a_lds b_lds scale total_lds max_lds_stage.
         map_of ms ''A lds'' = Some (PyInt a_lds) \<and>
         map_of ms ''B lds'' = Some (PyInt b_lds) \<and>
         map_of ms ''scale'' = Some (PyInt scale) \<and>
         map_of ms ''Total lds'' = Some (PyInt total_lds) \<and>
         map_of ms ''max lds stage'' = Some (PyFloat max_lds_stage) \<and>
         total_lds = a_lds + b_lds + scale \<and>
         total_lds \<noteq> 0 \<and>
         max_lds_stage = of_int LDS_CAP_BYTES / of_int total_lds \<and>
         \<bar>max_lds_stage - of_int LDS_CAP_BYTES / of_int total_lds\<bar>
           \<le> 1 / 10 ^ 9 * \<bar>of_int LDS_CAP_BYTES / of_int total_lds\<bar>"
  using nz e within_tolerance [of "of_int LDS_CAP_BYTES / of_int (a + b + s)"] by blast

lemma build_rows_no_configs:
  "build_rows cols [] rows acc = Inr (foldl (\<lambda>t row. AList.update row [] t) acc rows)"
  by (induction rows arbitrary: acc) simp_all

section \<open>Totals of the attention pipeline\<close>

text \<open>
  C1. In both modules, for every \<open>qtile\<close>, \<open>kv_tile\<close>, co-execution flag and packed
  flag, the breakdown of the pipeline is that of \<open>softmax\<close> (with the packed flag the
  pipeline passes on), the total is \<open>gemm\<close> plus the sum of the breakdown's values, and
  the co-execution total is \<open>gemm + (sum - 0.75 * gemm) / 2\<close>. The equation holds on
  every input, so the co-execution total has no floor.
\<close>

theorem attention_totals:
  "softmax_metrics (print_performance_table q kv co p) = softmax q kv (p \<and> \<not> co) \<and>
   tot_cycles (print_performance_table q kv co p) =
     gemm q kv + py_sum (map snd (softmax_metrics (print_performance_table q kv co p))) \<and>
   tot_cycles_coexe (print_performance_table q kv co p) =
     gemm q kv +
       (py_sum (map snd (softmax_metrics (print_performance_table q kv co p))) - 0.75 * gemm q kv) / 2 \<and>
   softmax_metrics (print_performance_table_400 q kv co p) = softmax_400 q kv (p \<and> \<not> co) \<and>
   tot_cycles (print_performance_table_400 q kv co p) =
     gemm_400 q kv + py_sum (map snd (softmax_metrics (print_performance_table_400 q kv co p))) \<and>
   tot_cycles_coexe (print_performance_table_400 q kv co p) =
     gemm_400 q kv +
       (py_sum (map snd (softmax_metrics (print_performance_table_400 q kv co p)))
          - 0.75 * gemm_400 q kv) / 2"
  by (simp add: print_performance_table_def print_performance_table_400_def Let_def)

section \<open>The divisibility checks of the GEMM tile model\<close>

text \<open>
  C2. When \<open>tile_k\<close> is not divisible by 32, or \<open>tile_n\<close> is not divisible by 16,
  \<open>fp8fp8_tile_metrics\<close> raises the error of \<open>_require_divisible\<close> (Python's
  ValueError, the configuration error of the specification) and returns no metrics:
  the check of \<open>tile_k\<close> comes first, then that of \<open>tile_n\<close>, both before any metric
  is computed. On every other input neither divisibility check raises.
\<close>

theorem fp8fp8_tile_metrics_divisibility:
  "(tile_k mod 32 \<noteq> 0 \<longrightarrow>
      fp8fp8_tile_metrics tile_m tile_n tile_k =
        Inl (ValueError (''tile_k must be divisible by 32, got '' @ str_int tile_k))) \<and>
   (tile_k mod 32 = 0 \<and> tile_n mod 16 \<noteq> 0 \<longrightarrow>
      fp8fp8_tile_metrics tile_m tile_n tile_k =
        Inl (ValueError (''tile_n must be divisible by 16, got '' @ str_int tile_n))) \<and>
   (tile_k mod 32 = 0 \<and> tile_n mod 16 = 0 \<longrightarrow>
      require_divisible tile_k 32 ''tile_k'' = Inr () \<and>
      require_divisible tile_n 16 ''tile_n'' = Inr ())"
  by (simp add: fp8fp8_tile_metrics_def require_divisible_32 require_divisible_16)

theorem fp8fp8_tile_metrics_divisibility_witness:
  "fp8fp8_tile_metrics 64 256 100 = Inl (ValueError ''tile_k must be divisible by 32, got 100'') \<and>
   fp8fp8_tile_metrics 64 (-24) 128 = Inl (ValueError ''tile_n must be divisible by 16, got -24'') \<and>
   require_divisible 128 32 ''tile_k'' = Inr () \<and>
   require_divisible 256 16 ''tile_n'' = Inr ()"
proof -
  have k: "(100::int) mod 32 \<noteq> 0" "(128::int) mod 32 = 0" by simp_all
  have n: "(-24::int) mod 16 \<noteq> 0" "(256::int) mod 16 = 0" by simp_all
  have s: "str_int 100 = ''100''" "str_int (-24) = ''-24''" by (simp_all add: str_eval)
  from fp8fp8_tile_metrics_divisibility [of 100 64 256] k
  have 1: "fp8fp8_tile_metrics 64 256 100 =
      Inl (ValueError (''tile_k must be divisible by 32, got '' @ str_int 100))"
    by blast
  from fp8fp8_tile_metrics_divisibility [of 128 64 "-24"] k n
  have 2: "fp8fp8_tile_metrics 64 (-24) 128 =
      Inl (ValueError (''tile_n must be divisible by 16, got '' @ str_int (-24)))"
    by blast
  from fp8fp8_tile_metrics_divisibility [of 128 64 256] k n
  have 3: "require_divisible 128 32 ''tile_k'' = Inr () \<and> require_divisible 256 16 ''tile_n'' = Inr ()"
    by blast
  from 1 2 3 show ?thesis unfolding s by simp
qed

section \<open>The packed flag under co-execution\<close>

text \<open>
  C3, as stated: src/pa.py has no override, so that some \<open>qtile\<close> and \<open>kv_tile\<close>
  give different results for \<open>is_packed=True\<close> and \<open>is_packed=False\<close> when
  co-execution is requested. This fails: \<open>print_performance_table\<close> of src/pa.py
  begins with \<open>if co_exe: is_packed = False\<close>, and no such pair exists.
\<close>

theorem pa_override_counterexample:
  "\<not> (\<exists>q kv. print_performance_table q kv True True \<noteq> print_performance_table q kv True False)"
  by (simp add: print_performance_table_def)

text \<open>
  C3, amended: src/pa.py forces the packed flag off under co-execution as well. For
  every \<open>qtile\<close> and \<open>kv_tile\<close> the pipeline called with \<open>is_packed=True\<close> and
  co-execution gives the same breakdown and totals as with \<open>is_packed=False\<close> and
  co-execution: it shows \<open>is_packed=False\<close> and uses the unpacked breakdown.
\<close>

theorem pa_override:
  "print_performance_table q kv True True = print_performance_table q kv True False \<and>
   shown_is_packed (print_performance_table q kv True True) = False \<and>
   softmax_metrics (print_performance_table q kv True True) = softmax q kv False"
  by (simp add: print_performance_table_def Let_def)

text \<open>
  C4. In src/400/pa.py, for every \<open>qtile\<close> and \<open>kv_tile\<close>, the pipeline called with
  \<open>is_packed=True\<close> and co-execution gives exactly the breakdown and totals it gives
  with \<open>is_packed=False\<close> and co-execution: the packed flag is forced off.
\<close>

theorem pa400_override:
  "print_performance_table_400 q kv True True = print_performance_table_400 q kv True False \<and>
   shown_is_packed (print_performance_table_400 q kv True True) = False \<and>
   softmax_metrics (print_performance_table_400 q kv True True) = softmax_400 q kv False"
  by (simp add: print_performance_table_400_def Let_def)

section \<open>Shared-memory totals of the GEMM tile model\<close>

text \<open>
  C5. \<open>fp8fp8_tile_metrics\<close> returns metrics for every configuration with positive
  dimensions, \<open>tile_k\<close> divisible by 32, \<open>tile_n\<close> divisible by 16 and
  \<open>tile_m * tile_n * tile_k\<close> within the range of a float. Whatever the configuration,
  the metrics it returns satisfy \<open>Total lds = A lds + B lds + scale\<close> and
  \<open>max lds stage = LDS_CAP_BYTES / Total lds\<close>, exactly and so within the relative
  tolerance \<open>1e-9\<close>.
\<close>

theorem lds_totals:
  "(tile_k mod 32 = 0 \<and> tile_n mod 16 = 0 \<and> 0 < tile_m \<and> 0 < tile_n \<and> 0 < tile_k \<and>
    of_int (tile_m * tile_n * tile_k) < FLOAT_LIMIT \<longrightarrow>
      (\<exists>ms. fp8fp8_tile_metrics tile_m tile_n tile_k = Inr ms)) \<and>
   (\<forall>ms. fp8fp8_tile_metrics tile_m tile_n tile_k = Inr ms \<longrightarrow>
      (\<exists>a_lds b_lds scale total_lds max_lds_stage.
         map_of ms ''A lds'' = Some (PyInt a_lds) \<and>
         map_of ms ''B lds'' = Some (PyInt b_lds) \<and>
         map_of ms ''scale'' = Some (PyInt scale) \<and>
         map_of ms ''Total lds'' = Some (PyInt total_lds) \<and>
         map_of ms ''max lds stage'' = Some (PyFloat max_lds_stage) \<and>
         total_lds = a_lds + b_lds + scale \<and>
         total_lds \<noteq> 0 \<and>
         max_lds_stage = of_int LDS_CAP_BYTES / of_int total_lds \<and>
         \<bar>max_lds_stage - of_int LDS_CAP_BYTES / of_int total_lds\<bar>
           \<le> 1 / 10 ^ 9 * \<bar>of_int LDS_CAP_BYTES / of_int total_lds\<bar>))"
proof (intro conjI impI allI)
  assume "tile_k mod 32 = 0 \<and> tile_n mod 16 = 0 \<and> 0 < tile_m \<and> 0 < tile_n \<and> 0 < tile_k \<and>
    of_int (tile_m * tile_n * tile_k) < FLOAT_LIMIT"
  then have v: "tile_k mod 32 = 0" "tile_n mod 16 = 0"
    and p: "0 < tile_m" "0 < tile_n" "0 < tile_k"
    and b: "of_int (tile_m * tile_n * tile_k) < FLOAT_LIMIT" by simp_all
  from metrics_in_range [OF v positive_in_range [OF p b]] positive_total [OF p]
  show "\<exists>ms. fp8fp8_tile_metrics tile_m tile_n tile_k = Inr ms" by blast
next
  fix ms
  assume r: "fp8fp8_tile_metrics tile_m tile_n tile_k = Inr ms"
  let ?a = "tile_m * (tile_k + A_LDS_PAD)"
  let ?b = "tile_k * tile_n"
  let ?s = "(tile_m * tile_k) div BLOCK_SIZE + (tile_n * tile_k) div BLOCK_SIZE"
  from metrics_returned_entries [OF r]
  have nz: "?a + ?b + ?s \<noteq> 0"
    and e: "map_of ms ''A lds'' = Some (PyInt ?a) \<and>
        map_of ms ''B lds'' = Some (PyInt ?b) \<and>
        map_of ms ''scale'' = Some (PyInt ?s) \<and>
        map_of ms ''Total lds'' = Some (PyInt (?a + ?b + ?s)) \<and>
        map_of ms ''max lds stage'' =
          Some (PyFloat (of_int LDS_CAP_BYTES / of_int (?a + ?b + ?s)))"
    by blast+
  from lds_package [OF nz e]
  show "\<exists>a_lds b_lds scale total_lds max_lds_stage.
         map_of ms ''A lds'' = Some (PyInt a_lds) \<and>
         map_of ms ''B lds'' = Some (PyInt b_lds) \<and>
         map_of ms ''scale'' = Some (PyInt scale) \<and>
         map_of ms ''Total lds'' = Some (PyInt total_lds) \<and>
         map_of ms ''max lds stage'' = Some (PyFloat max_lds_stage) \<and>
         total_lds = a_lds + b_lds + scale \<and>
         total_lds \<noteq> 0 \<and>
         max_lds_stage = of_int LDS_CAP_BYTES / of_int total_lds \<and>
         \<bar>max_lds_stage - of_int LDS_CAP_BYTES / of_int total_lds\<bar>
           \<le> 1 / 10 ^ 9 * \<bar>of_int LDS_CAP_BYTES / of_int total_lds\<bar>" .
qed

theorem lds_totals_witness:
  "\<exists>ms. fp8fp8_tile_metrics 64 256 128 = Inr ms \<and>
     map_of ms ''A lds'' = Some (PyInt 9216) \<and>
     map_of ms ''B lds'' = Some (PyInt 32768) \<and>
     map_of ms ''scale'' = Some (PyInt 1280) \<and>
     map_of ms ''Total lds'' = Some (PyInt 43264) \<and>
     map_of ms ''max lds stage'' = Some (PyFloat (327680 / 43264))"
proof -
  have "(128::int) mod 32 = 0 \<and> (256::int) mod 16 = 0 \<and>
      (0::int) < 64 \<and> (0::int) < 256 \<and> (0::int) < 128 \<and>
      of_int (64 * 256 * 128) < FLOAT_LIMIT"
    by (simp add: FLOAT_LIMIT_def)
  with lds_totals [of 128 256 64] obtain ms where r: "fp8fp8_tile_metrics 64 256 128 = Inr ms"
    by blast
  have e: "map_of ms ''A lds'' = Some (PyInt 9216) \<and>
     map_of ms ''B lds'' = Some (PyInt 32768) \<and>
     map_of ms ''scale'' = Some (PyInt 1280) \<and>
     map_of ms ''Total lds'' = Some (PyInt 43264) \<and>
     map_of ms ''max lds stage'' = Some (PyFloat (327680 / 43264))"
    using metrics_returned_entries [OF r]
    by (simp add: A_LDS_PAD_def BLOCK_SIZE_def LDS_CAP_BYTES_def)
  from r e show ?thesis by blast
qed

section \<open>Non-positive tiles in the attention model\<close>

text \<open>
  C6, as stated: for a non-positive \<open>qtile\<close> or \<open>kv_tile\<close> the results of \<open>softmax\<close>
  and \<open>gemm\<close> are zero or negative. This fails: with \<open>qtile = kv_tile = 0\<close> the
  breakdown of src/pa.py keeps the constant latencies 446 of \<open>inter_max\<close> and 100 of
  \<open>reshape_s\<close>, and with two negative tiles the product is positive, so \<open>gemm\<close> and
  the components that scale with it are positive in both modules.
\<close>

theorem attention_nonpositive_tiles_counterexample:
  "(0::int) \<le> 0 \<and> (-16::int) \<le> 0 \<and>
   map_of (softmax 0 0 False) ''inter_max'' = Some 446 \<and>
   map_of (softmax 0 0 False) ''reshape_s'' = Some 100 \<and>
   gemm (-16) (-16) = 128 \<and> gemm_400 (-16) (-16) = 16 \<and>
   map_of (softmax_400 (-16) (-16) False) ''dequant'' = Some 8"
  by (simp add: softmax_closed softmax_400_closed gemm_closed gemm_400_closed)

text \<open>
  C6, amended: for every zero or negative \<open>qtile\<close> or \<open>kv_tile\<close> with
  \<open>qtile * kv_tile * 512\<close> and \<open>qtile * 32\<close> within the range of a float, neither
  module raises: \<open>softmax\<close> and \<open>gemm\<close> return their numbers. When
  \<open>qtile * kv_tile * 512\<close> is beyond that range, \<open>gemm\<close> raises OverflowError. The
  results are not always zero or negative: \<open>gemm\<close> is zero or negative exactly when
  \<open>qtile * kv_tile \<le> 0\<close>; when \<open>qtile \<le> 0 \<le> kv_tile\<close>, every component of
  src/400/pa.py is zero or negative, and so is every component of src/pa.py other than
  \<open>inter_max\<close> and \<open>reshape_s\<close>, which are always \<open>446 + qtile / 8\<close> and
  \<open>100 + 10 * (qtile * kv_tile / 64)\<close>.
\<close>

theorem attention_nonpositive_tiles:
  assumes "qtile \<le> 0 \<or> kv_tile \<le> 0"
  shows
  "(\<bar>of_int (qtile * kv_tile * 512)\<bar> < FLOAT_LIMIT \<and> \<bar>of_int (qtile * 32)\<bar> < FLOAT_LIMIT \<longrightarrow>
      gemm_call qtile kv_tile = Inr (gemm qtile kv_tile) \<and>
      gemm_400_call qtile kv_tile = Inr (gemm_400 qtile kv_tile) \<and>
      softmax_call qtile kv_tile is_packed = Inr (softmax qtile kv_tile is_packed) \<and>
      softmax_400_call qtile kv_tile is_packed = Inr (softmax_400 qtile kv_tile is_packed)) \<and>
   (FLOAT_LIMIT \<le> \<bar>of_int (qtile * kv_tile * 512)\<bar> \<longrightarrow>
      gemm_call qtile kv_tile = Inl OverflowError \<and>
      gemm_400_call qtile kv_tile = Inl OverflowError) \<and>
   (gemm qtile kv_tile \<le> 0) = (qtile * kv_tile \<le> 0) \<and>
   (gemm_400 qtile kv_tile \<le> 0) = (qtile * kv_tile \<le> 0) \<and>
   (qtile \<le> 0 \<and> 0 \<le> kv_tile \<longrightarrow>
      (\<forall>v \<in> snd ` set (softmax_400 qtile kv_tile is_packed). v \<le> 0) \<and>
      (\<forall>(key, v) \<in> set (softmax qtile kv_tile is_packed).
         key \<noteq> ''inter_max'' \<and> key \<noteq> ''reshape_s'' \<longrightarrow> v \<le> 0)) \<and>
   map_of (softmax qtile kv_tile is_packed) ''inter_max'' = Some (446 + of_int qtile / 8) \<and>
   map_of (softmax qtile kv_tile is_packed) ''reshape_s'' =
     Some (100 + 10 * (of_int (qtile * kv_tile) / 64))"
proof -
  have c: "\<bar>of_int (qtile * kv_tile * 512)\<bar> < FLOAT_LIMIT \<and> \<bar>of_int (qtile * 32)\<bar> < FLOAT_LIMIT \<longrightarrow>
      gemm_call qtile kv_tile = Inr (gemm qtile kv_tile) \<and>
      gemm_400_call qtile kv_tile = Inr (gemm_400 qtile kv_tile) \<and>
      softmax_call qtile kv_tile is_packed = Inr (softmax qtile kv_tile is_packed) \<and>
      softmax_400_call qtile kv_tile is_packed = Inr (softmax_400 qtile kv_tile is_packed)"
    using softmax_call_in_range [of qtile kv_tile is_packed]
    by (simp add: gemm_call_eq gemm_400_call_eq del: of_int_mult)
  have o: "FLOAT_LIMIT \<le> \<bar>of_int (qtile * kv_tile * 512)\<bar> \<longrightarrow>
      gemm_call qtile kv_tile = Inl OverflowError \<and>
      gemm_400_call qtile kv_tile = Inl OverflowError"
    by (simp add: gemm_call_eq gemm_400_call_eq del: of_int_mult)
  have e: "map_of (softmax qtile kv_tile is_packed) ''inter_max'' = Some (446 + of_int qtile / 8) \<and>
      map_of (softmax qtile kv_tile is_packed) ''reshape_s'' =
        Some (100 + 10 * (of_int (qtile * kv_tile) / 64))"
    by (simp add: softmax_closed del: of_int_mult)
  from c o e gemm_sign [of qtile kv_tile] softmax_400_nonpos [of qtile kv_tile is_packed]
    softmax_nonpos [of qtile kv_tile is_packed]
  show ?thesis by blast
qed

theorem attention_nonpositive_tiles_witness:
  "((-16::int) \<le> 0 \<or> (128::int) \<le> 0) \<and>
   \<bar>of_int (-16 * 128 * 512)\<bar> < FLOAT_LIMIT \<and> \<bar>of_int (-16 * 32)\<bar> < FLOAT_LIMIT \<and>
   gemm_call (-16) 128 = Inr (gemm (-16) 128) \<and>
   gemm_400_call (-16) 128 = Inr (gemm_400 (-16) 128) \<and>
   softmax_call (-16) 128 True = Inr (softmax (-16) 128 True) \<and>
   softmax_400_call (-16) 128 True = Inr (softmax_400 (-16) 128 True) \<and>
   list_all (\<lambda>v. v \<le> 0) (map snd (softmax_400 (-16) 128 True)) \<and>
   list_all (\<lambda>(key, v). key = ''inter_max'' \<or> key = ''reshape_s'' \<or> v \<le> 0)
     (softmax (-16) 128 True) \<and>
   gemm (-16) 128 \<le> 0 \<and> gemm_400 (-16) 128 \<le> 0"
proof -
  have h: "(-16::int) \<le> 0 \<or> (128::int) \<le> 0" by simp
  have i: "\<bar>of_int (-16 * 128 * 512)\<bar> < FLOAT_LIMIT \<and> \<bar>of_int (-16 * 32)\<bar> < FLOAT_LIMIT"
    by (simp add: FLOAT_LIMIT_def)
  have s: "(-16::int) \<le> 0 \<and> (0::int) \<le> 128" by simp
  note t = attention_nonpositive_tiles [OF h, of True]
  from t i have r: "gemm_call (-16) 128 = Inr (gemm (-16) 128) \<and>
      gemm_400_call (-16) 128 = Inr (gemm_400 (-16) 128) \<and>
      softmax_call (-16) 128 True = Inr (softmax (-16) 128 True) \<and>
      softmax_400_call (-16) 128 True = Inr (softmax_400 (-16) 128 True)"
    by blast
  from t s
  have a: "\<forall>v \<in> snd ` set (softmax_400 (-16) 128 True). v \<le> 0"
    and b: "\<forall>(key, v) \<in> set (softmax (-16) 128 True).
         key \<noteq> ''inter_max'' \<and> key \<noteq> ''reshape_s'' \<longrightarrow> v \<le> 0"
    by blast+
  from t have g: "gemm (-16) 128 \<le> 0 \<and> gemm_400 (-16) 128 \<le> 0" by simp
  from a have a': "list_all (\<lambda>v. v \<le> 0) (map snd (softmax_400 (-16) 128 True))"
    by (simp add: list_all_iff)
  from b have b': "list_all (\<lambda>(key, v). key = ''inter_max'' \<or> key = ''reshape_s'' \<or> v \<le> 0)
     (softmax (-16) 128 True)"
    unfolding list_all_iff by fast
  from h i r a' b' g show ?thesis by blast
qed

section \<open>Monotonicity of the attention GEMM cost\<close>

text \<open>
  C7. For a fixed \<open>kv_tile\<close> and query tiles \<open>q1 \<le> q2\<close>, \<open>gemm q1 kv_tile \<le> gemm q2
  kv_tile\<close> in both modules. The tiles of a TileShape are positive; the proof needs
  only \<open>0 \<le> kv_tile\<close> and no sign of the query tiles.
\<close>

theorem gemm_monotone:
  assumes "q1 \<le> q2" and "0 \<le> kv_tile"
  shows "gemm q1 kv_tile \<le> gemm q2 kv_tile \<and> gemm_400 q1 kv_tile \<le> gemm_400 q2 kv_tile"
proof -
  from assms have "q1 * kv_tile \<le> q2 * kv_tile" by (rule mult_right_mono)
  then have "(of_int (q1 * kv_tile) :: rat) \<le> of_int (q2 * kv_tile)"
    by (simp only: of_int_le_iff)
  then show ?thesis
    by (simp add: gemm_closed gemm_400_closed divide_right_mono del: of_int_mult)
qed

theorem gemm_monotone_witness:
  "(16::int) \<le> 32 \<and> (0::int) \<le> 128 \<and>
   gemm 16 128 \<le> gemm 32 128 \<and> gemm_400 16 128 \<le> gemm_400 32 128"
  using gemm_monotone [of 16 32 128] by simp

section \<open>The table of the GEMM tile model\<close>

text \<open>
  C8. \<open>fp8fp8_table\<close> on an empty sequence of configurations does not raise. It
  returns the table whose twenty rows have no entry for any configuration: as a
  DataFrame built from that table and an empty list of columns when the pandas step
  succeeds, as the plain table otherwise.
\<close>

theorem fp8fp8_table_empty:
  "fp8fp8_table pd [] =
     Inr (case pd (map (\<lambda>row. (row, [])) row_order) [] of
            Some df \<Rightarrow> Inl df
          | None \<Rightarrow> Inr (map (\<lambda>row. (row, [])) row_order))"
  by (simp add: fp8fp8_table_def build_rows_no_configs row_order_def split: option.split)

section \<open>Tile dimensions are not checked for sign\<close>

text \<open>
  C9. \<open>fp8fp8_tile_metrics\<close> checks divisibility only. With \<open>tile_m = 0\<close>,
  \<open>tile_n = 256\<close>, \<open>tile_k = 128\<close> it returns metrics whose \<open>A lds\<close> is 0, and with
  \<open>tile_m = -64\<close> metrics whose \<open>A lds\<close> is -9216; neither call raises.
\<close>

theorem metrics_nonpositive_tile_m:
  "(\<exists>ms. fp8fp8_tile_metrics 0 256 128 = Inr ms \<and>
      map_of ms ''A lds'' = Some (PyInt 0) \<and>
      map_of ms ''Total lds'' = Some (PyInt 33792)) \<and>
   (\<exists>ms. fp8fp8_tile_metrics (-64) 256 128 = Inr ms \<and>
      map_of ms ''A lds'' = Some (PyInt (-9216)) \<and>
      map_of ms ''Total lds'' = Some (PyInt 24320))"
proof -
  have "fp8fp8_tile_metrics 0 256 128 = Inl ZeroDivisionError \<and>
      0 * (128 + A_LDS_PAD) + 128 * 256 +
        ((0 * 128) div BLOCK_SIZE + (256 * 128) div BLOCK_SIZE) = (0::int) \<or>
      (\<exists>ms. fp8fp8_tile_metrics 0 256 128 = Inr ms)"
    by (rule metrics_in_range) (simp_all add: FLOAT_LIMIT_def A_LDS_PAD_def)
  then obtain ms0 where r0: "fp8fp8_tile_metrics 0 256 128 = Inr ms0"
    by (auto simp: A_LDS_PAD_def BLOCK_SIZE_def)
  have z: "map_of ms0 ''A lds'' = Some (PyInt 0) \<and> map_of ms0 ''Total lds'' = Some (PyInt 33792)"
    using metrics_returned_entries [OF r0] by (simp add: A_LDS_PAD_def BLOCK_SIZE_def)
  have "fp8fp8_tile_metrics (-64) 256 128 = Inl ZeroDivisionError \<and>
      (-64) * (128 + A_LDS_PAD) + 128 * 256 +
        (((-64) * 128) div BLOCK_SIZE + (256 * 128) div BLOCK_SIZE) = (0::int) \<or>
      (\<exists>ms. fp8fp8_tile_metrics (-64) 256 128 = Inr ms)"
    by (rule metrics_in_range) (simp_all add: FLOAT_LIMIT_def A_LDS_PAD_def)
  then obtain ms1 where r1: "fp8fp8_tile_metrics (-64) 256 128 = Inr ms1"
    by (auto simp: A_LDS_PAD_def BLOCK_SIZE_def)
  have n: "map_of ms1 ''A lds'' = Some (PyInt (-9216)) \<and>
      map_of ms1 ''Total lds'' = Some (PyInt 24320)"
    using metrics_returned_entries [OF r1] by (simp add: A_LDS_PAD_def BLOCK_SIZE_def)
  from r0 z r1 n show ?thesis by blast
qed

section \<open>The keys of the breakdown\<close>

text \<open>
  C10. Whatever the input, \<open>softmax\<close> of src/400/pa.py returns the seven keys
  dequant, intra_max, inter_max, softmax_fma_exp, softmax_sum, s_quant,
  recompute_output, and \<open>softmax\<close> of src/pa.py the seven keys intra_max, inter_max,
  softmax_fma_exp, softmax_sum, s_quant, reshape_s, recompute_output, in this order.
\<close>

theorem softmax_keys:
  "map fst (softmax_400 q kv p) =
     [''dequant'', ''intra_max'', ''inter_max'', ''softmax_fma_exp'', ''softmax_sum'',
      ''s_quant'', ''recompute_output''] \<and>
   map fst (softmax q kv p) =
     [''intra_max'', ''inter_max'', ''softmax_fma_exp'', ''softmax_sum'', ''s_quant'',
      ''reshape_s'', ''recompute_output'']"
  by (simp add: softmax_def softmax_400_def Let_def)

end
